theory Spec2Isabelle
  imports Main
begin

section \<open>The queue consumer of scrapyx/x.py\<close>

text \<open>
  The theory embeds \<^verbatim>\<open>Command.boot\<close> (the loop that builds the three key dictionaries)
  and \<^verbatim>\<open>Command.consumer\<close> of \<^verbatim>\<open>src/scrapyx/x.py\<close>. Everything the consumer does
  to the outside (log records, Redis commands, the call of \<^verbatim>\<open>utils.crawl\<close>,
  \<^verbatim>\<open>os._exit\<close>) is appended to a trace, in the order in which the code does it.
  What the outside answers (what \<^verbatim>\<open>blpop\<close> delivers, what \<^verbatim>\<open>json.loads\<close> makes
  of the payload, whether \<^verbatim>\<open>utils.crawl\<close> raises, whether a Redis call fails) is
  input of the model. The module \<^verbatim>\<open>utils\<close> is not part of the file: the registry that
  \<^verbatim>\<open>utils.discover_spiders\<close> builds and the outcome of \<^verbatim>\<open>utils.crawl\<close> are
  parameters.

  The model follows one consumer. The statements about a single turn hold in every state
  of the backend, so also in one that other consumers have changed; within a run of the
  loop the backend changes by the commands of this consumer only, and time does not pass:
  an expiry that has been set stays set.
\<close>

subsection \<open>Python values\<close>

text \<open>
  What \<^verbatim>\<open>json.loads\<close> can return. A dict is the list of its items; the keys of a dict
  are distinct, and \<open>map_of\<close> reads it. \<^verbatim>\<open>None\<close> is \<open>JNull\<close>. A float is kept as its
  text: no claim computes with it.
\<close>

datatype json =
    JNull
  | JBool bool
  | JInt int
  | JFloat string
  | JStr string
  | JArr "json list"
  | JObj "(string \<times> json) list"

type_synonym pydict = "(string \<times> json) list"

text \<open>The name of the Python type of a value, as error messages print it.\<close>

fun type_name :: "json \<Rightarrow> string" where
  "type_name JNull = ''NoneType''"
| "type_name (JBool _) = ''bool''"
| "type_name (JInt _) = ''int''"
| "type_name (JFloat _) = ''float''"
| "type_name (JStr _) = ''str''"
| "type_name (JArr _) = ''list''"
| "type_name (JObj _) = ''dict''"

text \<open>
  The exceptions the consumer can meet; all of them are subclasses of \<^verbatim>\<open>Exception\<close>.
  \<open>KeyError k\<close>: \<^verbatim>\<open>d[k]\<close> on a dict without \<open>k\<close>. \<open>AttributeError t a\<close>: attribute
  \<open>a\<close> read on a value of type \<open>t\<close>. \<open>TypeError t\<close>: a value of the unhashable type
  \<open>t\<close> used as a dict key. \<open>ExternalError m\<close>: an \<^verbatim>\<open>Exception\<close> raised by a
  collaborator (Redis client, JSON parser, executor) whose \<^verbatim>\<open>str()\<close> is \<open>m\<close>.
\<close>

datatype py_exc =
    KeyError string
  | AttributeError string string
  | TypeError string
  | ExternalError string

text \<open>\<^verbatim>\<open>d[k]\<close> on a dict of strings.\<close>

definition getitem :: "(string \<rightharpoonup> string) \<Rightarrow> string \<Rightarrow> py_exc + string" where
  "getitem d k = (case d k of None \<Rightarrow> Inl (KeyError k) | Some v \<Rightarrow> Inr v)"

text \<open>
  \<^verbatim>\<open>task.get(k, default)\<close>, where \<open>task\<close> is whatever \<^verbatim>\<open>json.loads\<close> returned: only a
  dict has the method.
\<close>

definition task_get :: "json \<Rightarrow> string \<Rightarrow> json \<Rightarrow> py_exc + json" where
  "task_get task k d =
     (case task of
        JObj kvs \<Rightarrow> Inr (case map_of kvs k of None \<Rightarrow> d | Some v \<Rightarrow> v)
      | _ \<Rightarrow> Inl (AttributeError (type_name task) ''get''))"

text \<open>
  A spider class, as \<^verbatim>\<open>utils.discover_spiders\<close> registers it under its name. A class
  object is truthy, so \<^verbatim>\<open>not spider\<close> holds exactly when the lookup gave \<^verbatim>\<open>None\<close>.
\<close>

datatype spider = Spider string

text \<open>
  \<^verbatim>\<open>self.spiders.get(spider_name, None)\<close>: the registry is a dict keyed by spider names.
  A list or a dict is unhashable and makes the lookup raise; any other value that is not a
  string is no key of the registry.
\<close>

fun spiders_get :: "(string \<rightharpoonup> spider) \<Rightarrow> json \<Rightarrow> py_exc + spider option" where
  "spiders_get reg (JStr s) = Inr (reg s)"
| "spiders_get reg (JArr xs) = Inl (TypeError (type_name (JArr xs)))"
| "spiders_get reg (JObj kvs) = Inl (TypeError (type_name (JObj kvs)))"
| "spiders_get reg v = Inr None"

text \<open>
  \<^verbatim>\<open>str.strip()\<close>: a character of a string is a code point below 256; the white space
  among them is what \<^verbatim>\<open>str.isspace\<close> accepts there.
\<close>

definition whitespace :: "char list" where
  "whitespace = [CHR 0x09, CHR 0x0A, CHR 0x0B, CHR 0x0C, CHR 0x0D, CHR 0x1C, CHR 0x1D,
     CHR 0x1E, CHR 0x1F, CHR 0x20, CHR 0x85, CHR 0xA0]"

definition py_isspace :: "char \<Rightarrow> bool" where
  "py_isspace c = (c \<in> set whitespace)"

definition py_strip :: "string \<Rightarrow> string" where
  "py_strip s = rev (dropWhile py_isspace (rev (dropWhile py_isspace s)))"

subsection \<open>Effects and the backend\<close>

datatype level = INFO | WARNING | CRITICAL

text \<open>
  A log record is the level, the format string and the arguments of \<^verbatim>\<open>format\<close>:
  \<open>AStr\<close> a string, \<open>AVal\<close> a Python value, \<open>AExc e\<close> the text \<^verbatim>\<open>str(e)\<close>,
  \<open>ATraceback\<close> the text of \<^verbatim>\<open>traceback.format_exc()\<close>.
\<close>

datatype fmt_arg = AStr string | AVal json | AExc py_exc | ATraceback

datatype redis_call = BLPOP string | INCRBY string int | EXPIRE string nat

datatype effect =
    Log level string "fmt_arg list"
  | Connect
  | Redis redis_call
  | Crawl spider pydict
  | OsExit int

text \<open>
  A key of the backend holds a string that is an integer (\<open>RInt\<close>), a string that is
  none (\<open>RText\<close>), or a value of another type, such as a list (\<open>RList\<close>). \<open>ttls\<close>
  gives the expiry, in seconds, set on a key.
\<close>

datatype redis_value = RInt int | RText | RList

record world =
  vals :: "string \<rightharpoonup> redis_value"
  ttls :: "string \<rightharpoonup> nat"
  trace :: "effect list"

definition emit :: "effect \<Rightarrow> world \<Rightarrow> world" where
  "emit e w = w\<lparr>trace := trace w @ [e]\<rparr>"

definition logger :: "level \<Rightarrow> string \<Rightarrow> fmt_arg list \<Rightarrow> world \<Rightarrow> world" where
  "logger l fmt as w = emit (Log l fmt as) w"

text \<open>
  One turn of the loop as the outside decides it: the payload that \<^verbatim>\<open>blpop\<close> delivers,
  given by what \<^verbatim>\<open>json.loads\<close> makes of it (it raises, or it returns a value); what
  \<^verbatim>\<open>utils.crawl\<close> does if it is called (\<open>Some m\<close>: it raises an \<^verbatim>\<open>Exception\<close> whose
  \<^verbatim>\<open>str()\<close> is \<open>m\<close>); and the Redis calls that fail before reaching the server, each
  with the \<^verbatim>\<open>str()\<close> of its exception.
\<close>

datatype payload = Unparsable string | Parsed json

record event =
  payload :: payload
  crawled :: "string option"
  faults :: "(redis_call \<times> string) list"

definition max_int64 :: int where
  "max_int64 = 9223372036854775807"

text \<open>
  \<^verbatim>\<open>r.incr(name, amount)\<close>: INCRBY creates a missing key at 0 before adding, refuses a
  key that holds no string, refuses a string that is no integer, and refuses to leave the
  signed 64-bit range. The result is the exception, or the value after the increment.
\<close>

definition r_incr :: "event \<Rightarrow> string \<Rightarrow> int \<Rightarrow> world \<Rightarrow> py_exc \<times> world + int \<times> world" where
  "r_incr ev name amount w =
     (let w1 = emit (Redis (INCRBY name amount)) w in
      case map_of (faults ev) (INCRBY name amount) of
        Some m \<Rightarrow> Inl (ExternalError m, w1)
      | None \<Rightarrow>
          (case vals w1 name of
             Some RList \<Rightarrow>
               Inl (ExternalError
                      ''WRONGTYPE Operation against a key holding the wrong kind of value'', w1)
           | Some RText \<Rightarrow> Inl (ExternalError ''value is not an integer or out of range'', w1)
           | Some (RInt n) \<Rightarrow>
               if n + amount > max_int64 \<or> n + amount < - max_int64 - 1
               then Inl (ExternalError ''increment or decrement would overflow'', w1)
               else Inr (n + amount, w1\<lparr>vals := (vals w1)(name \<mapsto> RInt (n + amount))\<rparr>)
           | None \<Rightarrow> Inr (amount, w1\<lparr>vals := (vals w1)(name \<mapsto> RInt amount)\<rparr>)))"

text \<open>\<^verbatim>\<open>r.expire(name, time)\<close>: sets the expiry of a key that exists.\<close>

definition r_expire :: "event \<Rightarrow> string \<Rightarrow> nat \<Rightarrow> world \<Rightarrow> py_exc \<times> world + bool \<times> world" where
  "r_expire ev name time w =
     (let w1 = emit (Redis (EXPIRE name time)) w in
      case map_of (faults ev) (EXPIRE name time) of
        Some m \<Rightarrow> Inl (ExternalError m, w1)
      | None \<Rightarrow>
          (case vals w1 name of
             None \<Rightarrow> Inr (False, w1)
           | Some _ \<Rightarrow> Inr (True, w1\<lparr>ttls := (ttls w1)(name \<mapsto> time)\<rparr>)))"

subsection \<open>Command.boot: the key dictionaries\<close>

text \<open>The attributes of \<^verbatim>\<open>self\<close> that the consumer reads.\<close>

record command =
  queue_name :: string
  queue_workers_count :: "(string \<times> nat) list"
  spiders :: "string \<rightharpoonup> spider"
  queue_backlog_names :: "string \<rightharpoonup> string"
  queue_finished_counter_names :: "string \<rightharpoonup> string"
  queue_consumers_rpm_names :: "string \<rightharpoonup> string"

text \<open>The body of the loop of \<^verbatim>\<open>boot\<close> (lines 105 to 111), for one suffix.\<close>

definition boot_names :: "string \<Rightarrow> command \<Rightarrow> command" where
  "boot_names queue_name_suffix self =
     (let backlog_full_name = queue_name self @ ''.'' @ queue_name_suffix @ ''.BACKLOG'';
          counter_full_name = queue_name self @ ''.'' @ queue_name_suffix @ ''.C.FINISHED.'';
          rpm_full_name = queue_name self @ ''.'' @ queue_name_suffix @ ''.C.RPM.''
      in self\<lparr>queue_backlog_names := (queue_backlog_names self)(queue_name_suffix \<mapsto> backlog_full_name),
              queue_finished_counter_names :=
                (queue_finished_counter_names self)(queue_name_suffix \<mapsto> counter_full_name),
              queue_consumers_rpm_names :=
                (queue_consumers_rpm_names self)(queue_name_suffix \<mapsto> rpm_full_name)\<rparr>)"

fun boot_loop :: "string list \<Rightarrow> command \<Rightarrow> command" where
  "boot_loop [] self = self"
| "boot_loop (queue_name_suffix # rest) self = boot_loop rest (boot_names queue_name_suffix self)"

text \<open>
  \<^verbatim>\<open>boot\<close>, from the settings it reads: \<^verbatim>\<open>X_QUEUE_NAME\<close>, the items of
  \<^verbatim>\<open>X_QUEUE_WORKERS_COUNT\<close>, and the registry that \<^verbatim>\<open>utils.discover_spiders\<close> returns.
\<close>

definition boot :: "string \<Rightarrow> (string \<times> nat) list \<Rightarrow> (string \<rightharpoonup> spider) \<Rightarrow> command" where
  "boot qn qwc reg =
     boot_loop (map fst qwc)
       \<lparr>queue_name = qn, queue_workers_count = qwc, spiders = reg,
        queue_backlog_names = Map.empty, queue_finished_counter_names = Map.empty,
        queue_consumers_rpm_names = Map.empty\<rparr>"

subsection \<open>Command.consumer\<close>

text \<open>
  What one turn of the loop ends with: the next turn, an exception that leaves the loop
  for the handler of the outer \<^verbatim>\<open>try\<close>, or the end of the process.
\<close>

datatype step = Continue world | Raise py_exc world | Exit int world

text \<open>\<^verbatim>\<open>os._exit(code)\<close> is the last thing the process does.\<close>

definition os_exit :: "int \<Rightarrow> world \<Rightarrow> world" where
  "os_exit code w = emit (OsExit code) w"

text \<open>The locals \<^verbatim>\<open>spider_name\<close>, \<^verbatim>\<open>spider\<close> and \<^verbatim>\<open>args\<close> after line 165.\<close>

record job =
  spider_name :: json
  spider :: "spider option"
  args :: pydict

text \<open>\<^verbatim>\<open>isinstance(args, dict)\<close>.\<close>

fun isinstance_dict :: "json \<Rightarrow> bool" where
  "isinstance_dict (JObj _) = True"
| "isinstance_dict _ = False"

text \<open>Lines 158 to 165: the check of \<^verbatim>\<open>args\<close>, giving the dict that is passed on.\<close>

definition check_args :: "json \<Rightarrow> world \<Rightarrow> pydict \<times> world" where
  "check_args a w =
     (case a of
        JObj kvs \<Rightarrow> (kvs, w)
      | _ \<Rightarrow> ([], logger WARNING ''invalid args object, replacing it with empty one {}'' [AVal a] w))"

text \<open>
  Lines 154 to 165. The two \<^verbatim>\<open>get\<close> calls on the task and the lookup in the registry
  can raise; nothing is logged before they have returned.
\<close>

definition decode :: "command \<Rightarrow> json \<Rightarrow> world \<Rightarrow> py_exc + job \<times> world" where
  "decode self task w =
     (case task_get task ''spider'' JNull of
        Inl e \<Rightarrow> Inl e
      | Inr name \<Rightarrow>
          (case spiders_get (spiders self) name of
             Inl e \<Rightarrow> Inl e
           | Inr sp \<Rightarrow>
               (case task_get task ''args'' (JObj []) of
                  Inl e \<Rightarrow> Inl e
                | Inr a \<Rightarrow>
                    (case check_args a w of
                       (kvs, w') \<Rightarrow> Inr (\<lparr>spider_name = name, spider = sp, args = kvs\<rparr>, w')))))"

text \<open>
  Lines 167 to 177: \<open>Skip\<close> is the \<^verbatim>\<open>continue\<close> of an unknown spider, \<open>Proceed\<close>
  goes on to the counters.
\<close>

datatype flow = Skip world | Proceed world

definition dispatch :: "job \<Rightarrow> event \<Rightarrow> world \<Rightarrow> flow" where
  "dispatch j ev w =
     (case spider j of
        None \<Rightarrow> Skip (logger CRITICAL ''unknwon spider {}'' [AVal (spider_name j)] w)
      | Some sp \<Rightarrow>
          (let w1 = emit (Crawl sp (args j)) w in
           case crawled ev of
             None \<Rightarrow> Proceed w1
           | Some m \<Rightarrow>
               if py_strip m \<noteq> []
               then Proceed (logger CRITICAL ''exception from scrapy {}'' [AExc (ExternalError m)] w1)
               else Proceed w1))"

text \<open>
  Lines 179 to 190. Line 188 reads the name of the rate counter a second time; the
  read of line 186 has succeeded by then.
\<close>

definition record_stats :: "command \<Rightarrow> string \<Rightarrow> event \<Rightarrow> world \<Rightarrow> step" where
  "record_stats self queue_name_suffix ev w =
     (case getitem (queue_finished_counter_names self) queue_name_suffix of
        Inl e \<Rightarrow> Raise e w
      | Inr counter_name \<Rightarrow>
          (case r_incr ev counter_name 1 w of
             Inl (e, w1) \<Rightarrow> Raise e w1
           | Inr (_, w1) \<Rightarrow>
               (case getitem (queue_consumers_rpm_names self) queue_name_suffix of
                  Inl e \<Rightarrow> Raise e w1
                | Inr rpm_name \<Rightarrow>
                    (case r_incr ev rpm_name 1 w1 of
                       Inl (e, w2) \<Rightarrow> Raise e w2
                     | Inr (n, w2) \<Rightarrow>
                         if n = 1
                         then (case r_expire ev rpm_name 60 w2 of
                                 Inl (e, w3) \<Rightarrow> Raise e w3
                               | Inr (_, w3) \<Rightarrow> Continue w3)
                         else Continue w2))))"

text \<open>One turn of \<^verbatim>\<open>while True\<close> (lines 137 to 190).\<close>

definition iteration :: "command \<Rightarrow> string \<Rightarrow> event \<Rightarrow> world \<Rightarrow> step" where
  "iteration self queue_name_suffix ev w =
     (case getitem (queue_backlog_names self) queue_name_suffix of
        Inl e \<Rightarrow> Exit (- 1) (os_exit (- 1) (logger CRITICAL ''queue error {}'' [AExc e] w))
      | Inr backlog \<Rightarrow>
          (let w1 = emit (Redis (BLPOP backlog)) w in
           case map_of (faults ev) (BLPOP backlog) of
             Some m \<Rightarrow>
               Exit (- 1) (os_exit (- 1) (logger CRITICAL ''queue error {}'' [AExc (ExternalError m)] w1))
           | None \<Rightarrow>
               (case payload ev of
                  Unparsable m \<Rightarrow>
                    Continue (logger CRITICAL ''invalid task payload {}'' [AExc (ExternalError m)] w1)
                | Parsed task \<Rightarrow>
                    (let w2 = logger INFO ''detected new job and started working on it ...'' [] w1 in
                     case decode self task w2 of
                       Inl e \<Rightarrow> Raise e w2
                     | Inr (j, w3) \<Rightarrow>
                         (case dispatch j ev w3 of
                            Skip w4 \<Rightarrow> Continue w4
                          | Proceed w4 \<Rightarrow> record_stats self queue_name_suffix ev w4)))))"

text \<open>
  The handler of the outer \<^verbatim>\<open>try\<close> (lines 192 to 200); the format string is the
  source's, without its line breaks and rules.
\<close>

definition worker_exit :: "string \<Rightarrow> py_exc \<Rightarrow> world \<Rightarrow> world" where
  "worker_exit queue_name_suffix e w =
     os_exit (- 1)
       (logger CRITICAL ''QueueWorkerExit({}) due to the following error ({}), and here is the details: {}''
          [AStr queue_name_suffix, AExc e, ATraceback] w)"

text \<open>
  How a consumer ends on a finite run of events: blocked in \<^verbatim>\<open>blpop\<close> with nothing
  more to come, or with the process gone. The loop itself has no exit.
\<close>

datatype final = Blocked world | Terminated int world

fun consumer_loop :: "command \<Rightarrow> string \<Rightarrow> event list \<Rightarrow> world \<Rightarrow> final" where
  "consumer_loop self queue_name_suffix [] w =
     (case getitem (queue_backlog_names self) queue_name_suffix of
        Inl e \<Rightarrow> Terminated (- 1) (os_exit (- 1) (logger CRITICAL ''queue error {}'' [AExc e] w))
      | Inr backlog \<Rightarrow> Blocked (emit (Redis (BLPOP backlog)) w))"
| "consumer_loop self queue_name_suffix (ev # evs) w =
     (case iteration self queue_name_suffix ev w of
        Continue w' \<Rightarrow> consumer_loop self queue_name_suffix evs w'
      | Raise e w' \<Rightarrow> Terminated (- 1) (worker_exit queue_name_suffix e w')
      | Exit code w' \<Rightarrow> Terminated code w')"

text \<open>
  \<^verbatim>\<open>consumer\<close>: \<open>connect\<close> is what \<^verbatim>\<open>redis.Redis(...)\<close> does (\<open>Some m\<close>: it raises an
  \<^verbatim>\<open>Exception\<close> whose \<^verbatim>\<open>str()\<close> is \<open>m\<close>).
\<close>

definition consumer :: "command \<Rightarrow> string \<Rightarrow> string option \<Rightarrow> event list \<Rightarrow> world \<Rightarrow> final" where
  "consumer self queue_name_suffix connect evs w =
     (let w0 = logger INFO ''a new consumer (thread) has been started for queue {}''
                 [AStr queue_name_suffix] w;
          w1 = emit Connect w0
      in case connect of
           Some m \<Rightarrow>
             Terminated (- 1) (os_exit (- 1) (logger CRITICAL ''[redis] {}'' [AExc (ExternalError m)] w1))
         | None \<Rightarrow> consumer_loop self queue_name_suffix evs w1)"

subsection \<open>Reading a run\<close>

text \<open>The value of a counter: a key that is missing counts as 0, as INCRBY reads it.\<close>

definition counter :: "world \<Rightarrow> string \<Rightarrow> int" where
  "counter w name = (case vals w name of Some (RInt n) \<Rightarrow> n | _ \<Rightarrow> 0)"

text \<open>A key on which one more INCRBY by 1 succeeds.\<close>

definition counter_ok :: "world \<Rightarrow> string \<Rightarrow> bool" where
  "counter_ok w name =
     (case vals w name of
        None \<Rightarrow> True
      | Some (RInt n) \<Rightarrow> - max_int64 - 1 \<le> n + 1 \<and> n + 1 \<le> max_int64
      | Some RText \<Rightarrow> False
      | Some RList \<Rightarrow> False)"

definition final_world :: "final \<Rightarrow> world" where
  "final_world f = (case f of Blocked w \<Rightarrow> w | Terminated _ w \<Rightarrow> w)"

text \<open>The calls of the executor in a trace.\<close>

fun crawls :: "effect list \<Rightarrow> (spider \<times> pydict) list" where
  "crawls [] = []"
| "crawls (Crawl sp a # es) = (sp, a) # crawls es"
| "crawls (_ # es) = crawls es"

text \<open>The Redis commands in a trace.\<close>

fun redis_calls :: "effect list \<Rightarrow> redis_call list" where
  "redis_calls [] = []"
| "redis_calls (Redis c # es) = c # redis_calls es"
| "redis_calls (_ # es) = redis_calls es"

text \<open>The value that line 154 binds to \<^verbatim>\<open>spider_name\<close> for a task that is a dict.\<close>

definition spider_field :: "pydict \<Rightarrow> json" where
  "spider_field kvs = (case map_of kvs ''spider'' of None \<Rightarrow> JNull | Some v \<Rightarrow> v)"

text \<open>The value that line 156 binds to \<^verbatim>\<open>args\<close> for a task that is a dict.\<close>

definition args_field :: "pydict \<Rightarrow> json" where
  "args_field kvs = (case map_of kvs ''args'' of None \<Rightarrow> JObj [] | Some v \<Rightarrow> v)"

text \<open>An event whose payload is a dict that names a spider of the registry.\<close>

definition runs_spider :: "(string \<rightharpoonup> spider) \<Rightarrow> event \<Rightarrow> bool" where
  "runs_spider reg ev =
     (case payload ev of
        Parsed (JObj kvs) \<Rightarrow>
          (case spiders_get reg (spider_field kvs) of Inr (Some _) \<Rightarrow> True | _ \<Rightarrow> False)
      | _ \<Rightarrow> False)"

subsection \<open>Sample inputs\<close>

definition sample_spiders :: "string \<rightharpoonup> spider" where
  "sample_spiders = [''foo'' \<mapsto> Spider ''foo'']"

definition sample_self :: command where
  "sample_self = boot ''Q'' [(''a'', 2)] sample_spiders"

definition fresh :: world where
  "fresh = \<lparr>vals = Map.empty, ttls = Map.empty, trace = []\<rparr>"

text \<open>A turn whose \<^verbatim>\<open>blpop\<close> fails, and a well-formed job for the spider \<open>foo\<close>.\<close>

definition lost_connection :: event where
  "lost_connection =
     \<lparr>payload = Parsed (JObj [(''spider'', JStr ''foo'')]), crawled = None,
      faults = [(BLPOP ''Q.a.BACKLOG'', ''Connection closed by server.'')]\<rparr>"

definition foo_job :: event where
  "foo_job =
     \<lparr>payload = Parsed (JObj [(''spider'', JStr ''foo''), (''args'', JObj [(''x'', JInt 1)])]),
      crawled = None, faults = []\<rparr>"

text \<open>
  Jobs for \<open>foo\<close> without \<^verbatim>\<open>args\<close> and with \<^verbatim>\<open>args\<close> that is a string, a job for a
  spider that is not registered, a payload that is a JSON array, and jobs whose executor
  raises with an empty and with a blank message.
\<close>

definition foo_job_no_args :: event where
  "foo_job_no_args =
     \<lparr>payload = Parsed (JObj [(''spider'', JStr ''foo'')]), crawled = None, faults = []\<rparr>"

definition foo_job_bad_args :: event where
  "foo_job_bad_args =
     \<lparr>payload = Parsed (JObj [(''spider'', JStr ''foo''), (''args'', JStr ''not-a-mapping'')]),
      crawled = None, faults = []\<rparr>"

definition bar_job :: event where
  "bar_job =
     \<lparr>payload = Parsed (JObj [(''spider'', JStr ''bar'')]), crawled = None, faults = []\<rparr>"

definition array_payload :: event where
  "array_payload = \<lparr>payload = Parsed (JArr []), crawled = None, faults = []\<rparr>"

definition foo_job_empty_error :: event where
  "foo_job_empty_error =
     \<lparr>payload = Parsed (JObj [(''spider'', JStr ''foo'')]), crawled = Some [], faults = []\<rparr>"

definition foo_job_blank_error :: event where
  "foo_job_blank_error =
     \<lparr>payload = Parsed (JObj [(''spider'', JStr ''foo'')]), crawled = Some [CHR 0x20, CHR 0x09],
      faults = []\<rparr>"

definition foo_job_loud_error :: event where
  "foo_job_loud_error =
     \<lparr>payload = Parsed (JObj [(''spider'', JStr ''foo'')]), crawled = Some ''boom'', faults = []\<rparr>"

text \<open>
  The world after one turn for \<open>foo\<close> from a fresh backend, after a second such turn,
  and after a turn for the unknown \<open>bar\<close> that follows the first; a backend whose rate
  counter holds 0, and the world after a turn for \<open>foo\<close> from there; a job whose
  \<^verbatim>\<open>spider\<close> is a dict and whose \<^verbatim>\<open>args\<close> is a string; and the state in which the
  run of three jobs (\<open>foo\<close>, the unknown \<open>bar\<close>, \<open>foo\<close> failing) leaves a fresh world.
\<close>

definition ran_once :: world where
  "ran_once =
     \<lparr>vals = [''Q.a.C.FINISHED.'' \<mapsto> RInt 1, ''Q.a.C.RPM.'' \<mapsto> RInt 1],
      ttls = [''Q.a.C.RPM.'' \<mapsto> 60],
      trace =
        [Redis (BLPOP ''Q.a.BACKLOG''),
         Log INFO ''detected new job and started working on it ...'' [],
         Crawl (Spider ''foo'') [],
         Redis (INCRBY ''Q.a.C.FINISHED.'' 1),
         Redis (INCRBY ''Q.a.C.RPM.'' 1),
         Redis (EXPIRE ''Q.a.C.RPM.'' 60)]\<rparr>"

definition ran_twice :: world where
  "ran_twice =
     \<lparr>vals = [''Q.a.C.FINISHED.'' \<mapsto> RInt 2, ''Q.a.C.RPM.'' \<mapsto> RInt 2],
      ttls = [''Q.a.C.RPM.'' \<mapsto> 60],
      trace =
        [Redis (BLPOP ''Q.a.BACKLOG''),
         Log INFO ''detected new job and started working on it ...'' [],
         Crawl (Spider ''foo'') [],
         Redis (INCRBY ''Q.a.C.FINISHED.'' 1),
         Redis (INCRBY ''Q.a.C.RPM.'' 1),
         Redis (EXPIRE ''Q.a.C.RPM.'' 60),
         Redis (BLPOP ''Q.a.BACKLOG''),
         Log INFO ''detected new job and started working on it ...'' [],
         Crawl (Spider ''foo'') [],
         Redis (INCRBY ''Q.a.C.FINISHED.'' 1),
         Redis (INCRBY ''Q.a.C.RPM.'' 1)]\<rparr>"

definition skipped_after_one :: world where
  "skipped_after_one =
     \<lparr>vals = [''Q.a.C.FINISHED.'' \<mapsto> RInt 1, ''Q.a.C.RPM.'' \<mapsto> RInt 1],
      ttls = [''Q.a.C.RPM.'' \<mapsto> 60],
      trace =
        [Redis (BLPOP ''Q.a.BACKLOG''),
         Log INFO ''detected new job and started working on it ...'' [],
         Crawl (Spider ''foo'') [],
         Redis (INCRBY ''Q.a.C.FINISHED.'' 1),
         Redis (INCRBY ''Q.a.C.RPM.'' 1),
         Redis (EXPIRE ''Q.a.C.RPM.'' 60),
         Redis (BLPOP ''Q.a.BACKLOG''),
         Log INFO ''detected new job and started working on it ...'' [],
         Log CRITICAL ''unknwon spider {}'' [AVal (JStr ''bar'')]]\<rparr>"

definition rate_zero :: world where
  "rate_zero = \<lparr>vals = [''Q.a.C.RPM.'' \<mapsto> RInt 0], ttls = Map.empty, trace = []\<rparr>"

definition rate_zero_ran :: world where
  "rate_zero_ran =
     \<lparr>vals = [''Q.a.C.FINISHED.'' \<mapsto> RInt 1, ''Q.a.C.RPM.'' \<mapsto> RInt 1],
      ttls = [''Q.a.C.RPM.'' \<mapsto> 60],
      trace =
        [Redis (BLPOP ''Q.a.BACKLOG''),
         Log INFO ''detected new job and started working on it ...'' [],
         Crawl (Spider ''foo'') [],
         Redis (INCRBY ''Q.a.C.FINISHED.'' 1),
         Redis (INCRBY ''Q.a.C.RPM.'' 1),
         Redis (EXPIRE ''Q.a.C.RPM.'' 60)]\<rparr>"

definition unhashable_spider_job :: event where
  "unhashable_spider_job =
     \<lparr>payload = Parsed (JObj [(''spider'', JObj []), (''args'', JStr ''x'')]), crawled = None,
      faults = []\<rparr>"

definition three_jobs_done :: world where
  "three_jobs_done =
     \<lparr>vals = [''Q.a.C.FINISHED.'' \<mapsto> RInt 2, ''Q.a.C.RPM.'' \<mapsto> RInt 2],
        ttls = [''Q.a.C.RPM.'' \<mapsto> 60],
        trace =
          [Redis (BLPOP ''Q.a.BACKLOG''),
           Log INFO ''detected new job and started working on it ...'' [],
           Crawl (Spider ''foo'') [(''x'', JInt 1)],
           Redis (INCRBY ''Q.a.C.FINISHED.'' 1),
           Redis (INCRBY ''Q.a.C.RPM.'' 1),
           Redis (EXPIRE ''Q.a.C.RPM.'' 60),
           Redis (BLPOP ''Q.a.BACKLOG''),
           Log INFO ''detected new job and started working on it ...'' [],
           Log CRITICAL ''unknwon spider {}'' [AVal (JStr ''bar'')],
           Redis (BLPOP ''Q.a.BACKLOG''),
           Log INFO ''detected new job and started working on it ...'' [],
           Crawl (Spider ''foo'') [],
           Log CRITICAL ''exception from scrapy {}'' [AExc (ExternalError ''boom'')],
           Redis (INCRBY ''Q.a.C.FINISHED.'' 1),
           Redis (INCRBY ''Q.a.C.RPM.'' 1),
           Redis (BLPOP ''Q.a.BACKLOG'')]\<rparr>"

section \<open>Properties\<close>

subsection \<open>Basic facts\<close>

lemma emit_fields [simp]:
  "vals (emit e w) = vals w"
  "ttls (emit e w) = ttls w"
  "trace (emit e w) = trace w @ [e]"
  by (simp_all add: emit_def)

lemma logger_fields [simp]:
  "vals (logger l f as w) = vals w"
  "ttls (logger l f as w) = ttls w"
  "trace (logger l f as w) = trace w @ [Log l f as]"
  by (simp_all add: logger_def)

lemma os_exit_fields [simp]:
  "vals (os_exit c w) = vals w"
  "ttls (os_exit c w) = ttls w"
  "trace (os_exit c w) = trace w @ [OsExit c]"
  by (simp_all add: os_exit_def)

lemma boot_names_fields [simp]:
  "queue_name (boot_names s self) = queue_name self"
  "spiders (boot_names s self) = spiders self"
  "queue_workers_count (boot_names s self) = queue_workers_count self"
  "queue_backlog_names (boot_names s self) =
     (queue_backlog_names self)(s \<mapsto> queue_name self @ ''.'' @ s @ ''.BACKLOG'')"
  "queue_finished_counter_names (boot_names s self) =
     (queue_finished_counter_names self)(s \<mapsto> queue_name self @ ''.'' @ s @ ''.C.FINISHED.'')"
  "queue_consumers_rpm_names (boot_names s self) =
     (queue_consumers_rpm_names self)(s \<mapsto> queue_name self @ ''.'' @ s @ ''.C.RPM.'')"
  by (simp_all add: boot_names_def Let_def)

lemma boot_loop_fixed [simp]:
  "queue_name (boot_loop ss self) = queue_name self"
  "spiders (boot_loop ss self) = spiders self"
  "queue_workers_count (boot_loop ss self) = queue_workers_count self"
  by (induction ss arbitrary: self) simp_all

lemma boot_loop_backlog:
  "queue_backlog_names (boot_loop ss self) s =
     (if s \<in> set ss then Some (queue_name self @ ''.'' @ s @ ''.BACKLOG'')
      else queue_backlog_names self s)"
  by (induction ss arbitrary: self) auto

lemma boot_loop_finished:
  "queue_finished_counter_names (boot_loop ss self) s =
     (if s \<in> set ss then Some (queue_name self @ ''.'' @ s @ ''.C.FINISHED.'')
      else queue_finished_counter_names self s)"
  by (induction ss arbitrary: self) auto

lemma boot_loop_rpm:
  "queue_consumers_rpm_names (boot_loop ss self) s =
     (if s \<in> set ss then Some (queue_name self @ ''.'' @ s @ ''.C.RPM.'')
      else queue_consumers_rpm_names self s)"
  by (induction ss arbitrary: self) auto

lemma boot_fields [simp]:
  "queue_name (boot qn qwc reg) = qn"
  "spiders (boot qn qwc reg) = reg"
  "queue_workers_count (boot qn qwc reg) = qwc"
  by (simp_all add: boot_def)

lemma boot_lookup:
  "queue_backlog_names (boot qn qwc reg) s =
     (if s \<in> fst ` set qwc then Some (qn @ ''.'' @ s @ ''.BACKLOG'') else None)"
  "queue_finished_counter_names (boot qn qwc reg) s =
     (if s \<in> fst ` set qwc then Some (qn @ ''.'' @ s @ ''.C.FINISHED.'') else None)"
  "queue_consumers_rpm_names (boot qn qwc reg) s =
     (if s \<in> fst ` set qwc then Some (qn @ ''.'' @ s @ ''.C.RPM.'') else None)"
  by (simp_all add: boot_def boot_loop_backlog boot_loop_finished boot_loop_rpm)

lemma sample_self_fields [simp]:
  "spiders sample_self = sample_spiders"
  "queue_backlog_names sample_self ''a'' = Some ''Q.a.BACKLOG''"
  "queue_finished_counter_names sample_self ''a'' = Some ''Q.a.C.FINISHED.''"
  "queue_consumers_rpm_names sample_self ''a'' = Some ''Q.a.C.RPM.''"
  by (simp_all add: sample_self_def boot_lookup)

subsection \<open>The key layout\<close>

text \<open>
  C5. For every namespace \<open>N\<close> and every suffix \<open>S\<close> of the worker-count mapping,
  \<^verbatim>\<open>boot\<close> stores under \<open>S\<close> exactly the three keys \<open>N.S.BACKLOG\<close>,
  \<open>N.S.C.FINISHED.\<close> and \<open>N.S.C.RPM.\<close>: the namespace, a dot, the suffix and the role
  tag, concatenated. The keys depend on \<open>N\<close> and \<open>S\<close> alone, not on the registry, the
  worker counts or the other suffixes.
\<close>

theorem boot_key_layout:
  "S \<in> fst ` set qwc \<Longrightarrow>
     queue_backlog_names (boot N qwc reg) S = Some (N @ ''.'' @ S @ ''.BACKLOG'') \<and>
     queue_finished_counter_names (boot N qwc reg) S = Some (N @ ''.'' @ S @ ''.C.FINISHED.'') \<and>
     queue_consumers_rpm_names (boot N qwc reg) S = Some (N @ ''.'' @ S @ ''.C.RPM.'')"
  by (simp add: boot_lookup)

theorem boot_key_layout_witness:
  "''a'' \<in> fst ` set [(''a'', 2::nat)] \<and>
   queue_backlog_names (boot ''Q'' [(''a'', 2)] sample_spiders) ''a'' = Some ''Q.a.BACKLOG'' \<and>
   queue_finished_counter_names (boot ''Q'' [(''a'', 2)] sample_spiders) ''a'' = Some ''Q.a.C.FINISHED.'' \<and>
   queue_consumers_rpm_names (boot ''Q'' [(''a'', 2)] sample_spiders) ''a'' = Some ''Q.a.C.RPM.''"
  using boot_key_layout [of "''a''" "[(''a'', 2)]" "''Q''" sample_spiders]
  by simp

subsection \<open>Fatal conditions\<close>

text \<open>
  C1. If opening the consumer's own connection fails, the error is logged at critical
  level and the process ends with \<^verbatim>\<open>os._exit(-1)\<close>: nothing else happens, whatever
  events would have followed. If the blocking \<^verbatim>\<open>blpop\<close> of a turn fails, in whatever
  state the turn starts, the error is logged at critical level and the process ends with
  \<^verbatim>\<open>os._exit(-1)\<close>: the call is not repeated, the events that follow are not
  looked at, and the backend is left as it was. The exit code \<open>- 1\<close> is not zero.
\<close>

theorem consumer_fatal:
  "(connect = Some m \<longrightarrow>
      consumer self S connect evs w =
        Terminated (- 1)
          (w\<lparr>trace := trace w @
             [Log INFO ''a new consumer (thread) has been started for queue {}'' [AStr S],
              Connect,
              Log CRITICAL ''[redis] {}'' [AExc (ExternalError m)],
              OsExit (- 1)]\<rparr>)) \<and>
   (queue_backlog_names self S = Some backlog \<and> map_of (faults ev) (BLPOP backlog) = Some m \<longrightarrow>
      consumer_loop self S (ev # evs) w =
        Terminated (- 1)
          (w\<lparr>trace := trace w @
             [Redis (BLPOP backlog),
              Log CRITICAL ''queue error {}'' [AExc (ExternalError m)],
              OsExit (- 1)]\<rparr>))"
  by (simp add: consumer_def iteration_def getitem_def emit_def logger_def os_exit_def)

theorem consumer_fatal_witness:
  "consumer sample_self ''a'' (Some ''refused'') [foo_job] fresh =
     Terminated (- 1)
       (fresh\<lparr>trace :=
          [Log INFO ''a new consumer (thread) has been started for queue {}'' [AStr ''a''],
           Connect,
           Log CRITICAL ''[redis] {}'' [AExc (ExternalError ''refused'')],
           OsExit (- 1)]\<rparr>) \<and>
   queue_backlog_names sample_self ''a'' = Some ''Q.a.BACKLOG'' \<and>
   map_of (faults lost_connection) (BLPOP ''Q.a.BACKLOG'') = Some ''Connection closed by server.'' \<and>
   consumer_loop sample_self ''a'' [lost_connection, foo_job] fresh =
     Terminated (- 1)
       (fresh\<lparr>trace :=
          [Redis (BLPOP ''Q.a.BACKLOG''),
           Log CRITICAL ''queue error {}'' [AExc (ExternalError ''Connection closed by server.'')],
           OsExit (- 1)]\<rparr>)"
  using consumer_fatal [of "Some ''refused''" "''refused''" sample_self "''a''" "[foo_job]" fresh
      "''Q.a.BACKLOG''" lost_connection]
    consumer_fatal [of "None" "''Connection closed by server.''" sample_self "''a''" "[foo_job]" fresh
      "''Q.a.BACKLOG''" lost_connection]
  by (simp add: lost_connection_def fresh_def)

subsection \<open>Facts about decoding and evaluation\<close>

lemma decode_dict:
  "decode self (JObj kvs) w =
     (case spiders_get (spiders self) (spider_field kvs) of
        Inl e \<Rightarrow> Inl e
      | Inr sp \<Rightarrow>
          Inr (\<lparr>spider_name = spider_field kvs, spider = sp, args = fst (check_args (args_field kvs) w)\<rparr>,
               snd (check_args (args_field kvs) w)))"
  by (simp add: decode_def task_get_def spider_field_def args_field_def split: sum.splits prod.splits option.splits)

lemma check_args_fields [simp]:
  "vals (snd (check_args a w)) = vals w"
  "ttls (snd (check_args a w)) = ttls w"
  "trace (snd (check_args a w)) =
     trace w @ (if isinstance_dict a then []
                else [Log WARNING ''invalid args object, replacing it with empty one {}'' [AVal a]])"
  by (cases a; simp add: check_args_def)+

lemma crawls_append [simp]: "crawls (xs @ ys) = crawls xs @ crawls ys"
  by (induction xs rule: crawls.induct) simp_all

text \<open>The equations that evaluate a run on a sample input.\<close>

lemmas run_defs =
  iteration_def getitem_def decode_dict spider_field_def args_field_def check_args_def
  dispatch_def record_stats_def r_incr_def r_expire_def worker_exit_def
  emit_def logger_def os_exit_def Let_def max_int64_def py_strip_def py_isspace_def whitespace_def
  sample_spiders_def fresh_def

subsection \<open>Decoding\<close>

text \<open>
  C9. A payload that is a dict whose \<^verbatim>\<open>spider\<close> is a string \<open>s\<close> decodes without an
  exception and without a log record: \<^verbatim>\<open>spider_name\<close> is \<open>s\<close>, and \<^verbatim>\<open>args\<close> is the
  dict of the payload, unchanged, when the payload has one, and the empty dict when the
  payload has no \<^verbatim>\<open>args\<close>. The payload \<^verbatim>\<open>{spider: "foo", args: {"x": 1}}\<close> of the claim
  is the witness.
\<close>

theorem decode_well_formed:
  "map_of kvs ''spider'' = Some (JStr s) \<Longrightarrow>
     (map_of kvs ''args'' = Some (JObj a) \<longrightarrow>
        decode self (JObj kvs) w =
          Inr (\<lparr>spider_name = JStr s, spider = spiders self s, args = a\<rparr>, w)) \<and>
     (map_of kvs ''args'' = None \<longrightarrow>
        decode self (JObj kvs) w =
          Inr (\<lparr>spider_name = JStr s, spider = spiders self s, args = []\<rparr>, w))"
  by (simp add: decode_dict spider_field_def args_field_def check_args_def)

theorem decode_well_formed_witness:
  "map_of [(''spider'', JStr ''foo''), (''args'', JObj [(''x'', JInt 1)])] ''spider'' = Some (JStr ''foo'') \<and>
   map_of [(''spider'', JStr ''foo''), (''args'', JObj [(''x'', JInt 1)])] ''args'' = Some (JObj [(''x'', JInt 1)]) \<and>
   decode sample_self (JObj [(''spider'', JStr ''foo''), (''args'', JObj [(''x'', JInt 1)])]) fresh =
     Inr (\<lparr>spider_name = JStr ''foo'', spider = Some (Spider ''foo''), args = [(''x'', JInt 1)]\<rparr>, fresh) \<and>
   map_of [(''spider'', JStr ''foo'')] ''spider'' = Some (JStr ''foo'') \<and>
   map_of [(''spider'', JStr ''foo'')] ''args'' = None \<and>
   decode sample_self (JObj [(''spider'', JStr ''foo'')]) fresh =
     Inr (\<lparr>spider_name = JStr ''foo'', spider = Some (Spider ''foo''), args = []\<rparr>, fresh)"
  using decode_well_formed [of "[(''spider'', JStr ''foo''), (''args'', JObj [(''x'', JInt 1)])]" "''foo''"
      "[(''x'', JInt 1)]" sample_self fresh]
    decode_well_formed [of "[(''spider'', JStr ''foo'')]" "''foo''" "[]" sample_self fresh]
  by (simp add: sample_spiders_def)

text \<open>
  For a payload that is a dict whose \<^verbatim>\<open>args\<close> is present and is not a dict, and whose
  \<^verbatim>\<open>spider\<close> the registry can look up (it is absent, or a string, a number, a boolean
  or null), decoding raises nothing: one warning is logged, \<^verbatim>\<open>args\<close> becomes the empty
  dict, and the turn goes on to dispatch with that job, and from there to the counters, as
  for any other job.
\<close>

lemma args_not_a_mapping:
  "map_of kvs ''args'' = Some a \<Longrightarrow> \<not> isinstance_dict a \<Longrightarrow>
   spiders_get (spiders self) (spider_field kvs) = Inr sp \<Longrightarrow>
     decode self (JObj kvs) w =
       Inr (\<lparr>spider_name = spider_field kvs, spider = sp, args = []\<rparr>,
            logger WARNING ''invalid args object, replacing it with empty one {}'' [AVal a] w) \<and>
     (queue_backlog_names self S = Some backlog \<and> map_of (faults ev) (BLPOP backlog) = None \<and>
      payload ev = Parsed (JObj kvs) \<longrightarrow>
        iteration self S ev w =
          (case dispatch \<lparr>spider_name = spider_field kvs, spider = sp, args = []\<rparr> ev
                  (logger WARNING ''invalid args object, replacing it with empty one {}'' [AVal a]
                     (logger INFO ''detected new job and started working on it ...'' []
                        (emit (Redis (BLPOP backlog)) w))) of
             Skip w' \<Rightarrow> Continue w'
           | Proceed w' \<Rightarrow> record_stats self S ev w'))"
  by (cases a) (simp_all add: decode_dict args_field_def check_args_def iteration_def getitem_def)

lemma args_not_a_mapping_sample:
  "map_of [(''spider'', JStr ''foo''), (''args'', JStr ''not-a-mapping'')] ''args'' = Some (JStr ''not-a-mapping'') \<and>
   \<not> isinstance_dict (JStr ''not-a-mapping'') \<and>
   spiders_get (spiders sample_self) (spider_field [(''spider'', JStr ''foo''), (''args'', JStr ''not-a-mapping'')])
     = Inr (Some (Spider ''foo'')) \<and>
   decode sample_self (JObj [(''spider'', JStr ''foo''), (''args'', JStr ''not-a-mapping'')]) fresh =
     Inr (\<lparr>spider_name = JStr ''foo'', spider = Some (Spider ''foo''), args = []\<rparr>,
          fresh\<lparr>trace := [Log WARNING ''invalid args object, replacing it with empty one {}''
                             [AVal (JStr ''not-a-mapping'')]]\<rparr>) \<and>
   queue_backlog_names sample_self ''a'' = Some ''Q.a.BACKLOG'' \<and>
   map_of (faults foo_job_bad_args) (BLPOP ''Q.a.BACKLOG'') = None \<and>
   payload foo_job_bad_args = Parsed (JObj [(''spider'', JStr ''foo''), (''args'', JStr ''not-a-mapping'')]) \<and>
   iteration sample_self ''a'' foo_job_bad_args fresh =
     Continue
       \<lparr>vals = [''Q.a.C.FINISHED.'' \<mapsto> RInt 1, ''Q.a.C.RPM.'' \<mapsto> RInt 1],
        ttls = [''Q.a.C.RPM.'' \<mapsto> 60],
        trace =
          [Redis (BLPOP ''Q.a.BACKLOG''),
           Log INFO ''detected new job and started working on it ...'' [],
           Log WARNING ''invalid args object, replacing it with empty one {}'' [AVal (JStr ''not-a-mapping'')],
           Crawl (Spider ''foo'') [],
           Redis (INCRBY ''Q.a.C.FINISHED.'' 1),
           Redis (INCRBY ''Q.a.C.RPM.'' 1),
           Redis (EXPIRE ''Q.a.C.RPM.'' 60)]\<rparr>"
  using args_not_a_mapping [of "[(''spider'', JStr ''foo''), (''args'', JStr ''not-a-mapping'')]"
      "JStr ''not-a-mapping''" sample_self "Some (Spider ''foo'')" fresh "''a''" "''Q.a.BACKLOG''"
      foo_job_bad_args]
  by (simp add: foo_job_bad_args_def run_defs)

text \<open>
  A dict whose \<^verbatim>\<open>spider\<close> is a list or a dict makes the lookup of line 155 raise. The
  lookup comes before the check of \<^verbatim>\<open>args\<close>, and only the outer handler catches its
  exception: the process ends.
\<close>

lemma unhashable_spider_fatal:
  "queue_backlog_names self S = Some backlog \<Longrightarrow> map_of (faults ev) (BLPOP backlog) = None \<Longrightarrow>
   payload ev = Parsed (JObj kvs) \<Longrightarrow> spiders_get (spiders self) (spider_field kvs) = Inl e \<Longrightarrow>
     consumer_loop self S (ev # evs) w =
       Terminated (- 1)
         (w\<lparr>trace := trace w @
            [Redis (BLPOP backlog),
             Log INFO ''detected new job and started working on it ...'' [],
             Log CRITICAL ''QueueWorkerExit({}) due to the following error ({}), and here is the details: {}''
               [AStr S, AExc e, ATraceback],
             OsExit (- 1)]\<rparr>)"
  by (simp add: iteration_def getitem_def decode_dict worker_exit_def emit_def logger_def os_exit_def)

text \<open>
  C6. The claim is that every payload whose \<^verbatim>\<open>args\<close> is present and is not a mapping
  decodes: a warning is logged, \<^verbatim>\<open>args\<close> becomes the empty mapping and the turn goes on.
  The code does so when the lookup of line 155 returns (lemma \<open>args_not_a_mapping\<close>),
  and not otherwise: for the payload \<^verbatim>\<open>{"spider": {}, "args": "x"}\<close> the lookup raises
  \<^verbatim>\<open>TypeError\<close> before \<^verbatim>\<open>args\<close> is read, no warning is logged, the outer handler
  ends the process with \<^verbatim>\<open>os._exit(-1)\<close>, and the job that follows is never read.
\<close>

theorem bad_args_unhashable_spider_terminates:
  "map_of [(''spider'', JObj []), (''args'', JStr ''x'')] ''args'' = Some (JStr ''x'') \<and>
   \<not> isinstance_dict (JStr ''x'') \<and>
   decode sample_self (JObj [(''spider'', JObj []), (''args'', JStr ''x'')]) fresh =
     Inl (TypeError ''dict'') \<and>
   consumer_loop sample_self ''a'' [unhashable_spider_job, foo_job] fresh =
     Terminated (- 1)
       (fresh\<lparr>trace :=
          [Redis (BLPOP ''Q.a.BACKLOG''),
           Log INFO ''detected new job and started working on it ...'' [],
           Log CRITICAL ''QueueWorkerExit({}) due to the following error ({}), and here is the details: {}''
             [AStr ''a'', AExc (TypeError ''dict''), ATraceback],
           OsExit (- 1)]\<rparr>)"
  by (simp add: unhashable_spider_job_def iteration_def getitem_def decode_dict spider_field_def
      worker_exit_def emit_def logger_def os_exit_def fresh_def)

subsection \<open>Dispatch\<close>

text \<open>
  C7. When the registry has no spider for the \<^verbatim>\<open>spider\<close> of a decoded job, the turn
  logs \<^verbatim>\<open>unknwon spider\<close> at critical level and ends there: the executor is not
  called, no exception leaves the turn, the backend is not touched, and the loop goes on
  with the next event.
\<close>

theorem unknown_spider_dropped:
  "queue_backlog_names self S = Some backlog \<Longrightarrow> map_of (faults ev) (BLPOP backlog) = None \<Longrightarrow>
   payload ev = Parsed (JObj kvs) \<Longrightarrow> spiders_get (spiders self) (spider_field kvs) = Inr None \<Longrightarrow>
     (let w' = logger CRITICAL ''unknwon spider {}'' [AVal (spider_field kvs)]
                 (snd (check_args (args_field kvs)
                    (logger INFO ''detected new job and started working on it ...'' []
                       (emit (Redis (BLPOP backlog)) w))))
      in iteration self S ev w = Continue w' \<and>
         crawls (trace w') = crawls (trace w) \<and>
         vals w' = vals w \<and> ttls w' = ttls w \<and>
         consumer_loop self S (ev # evs) w = consumer_loop self S evs w')"
  by (simp add: Let_def iteration_def getitem_def decode_dict dispatch_def)

theorem unknown_spider_dropped_witness:
  "queue_backlog_names sample_self ''a'' = Some ''Q.a.BACKLOG'' \<and>
   map_of (faults bar_job) (BLPOP ''Q.a.BACKLOG'') = None \<and>
   payload bar_job = Parsed (JObj [(''spider'', JStr ''bar'')]) \<and>
   spiders_get (spiders sample_self) (spider_field [(''spider'', JStr ''bar'')]) = Inr None \<and>
   iteration sample_self ''a'' bar_job fresh =
     Continue
       (fresh\<lparr>trace :=
          [Redis (BLPOP ''Q.a.BACKLOG''),
           Log INFO ''detected new job and started working on it ...'' [],
           Log CRITICAL ''unknwon spider {}'' [AVal (JStr ''bar'')]]\<rparr>) \<and>
   consumer_loop sample_self ''a'' [bar_job, foo_job_no_args] fresh =
     Blocked
       \<lparr>vals = [''Q.a.C.FINISHED.'' \<mapsto> RInt 1, ''Q.a.C.RPM.'' \<mapsto> RInt 1],
        ttls = [''Q.a.C.RPM.'' \<mapsto> 60],
        trace =
          [Redis (BLPOP ''Q.a.BACKLOG''),
           Log INFO ''detected new job and started working on it ...'' [],
           Log CRITICAL ''unknwon spider {}'' [AVal (JStr ''bar'')],
           Redis (BLPOP ''Q.a.BACKLOG''),
           Log INFO ''detected new job and started working on it ...'' [],
           Crawl (Spider ''foo'') [],
           Redis (INCRBY ''Q.a.C.FINISHED.'' 1),
           Redis (INCRBY ''Q.a.C.RPM.'' 1),
           Redis (EXPIRE ''Q.a.C.RPM.'' 60),
           Redis (BLPOP ''Q.a.BACKLOG'')]\<rparr>"
  using unknown_spider_dropped [of sample_self "''a''" "''Q.a.BACKLOG''" bar_job
      "[(''spider'', JStr ''bar'')]" fresh "[foo_job_no_args]"]
  by (simp add: bar_job_def foo_job_no_args_def run_defs)

subsection \<open>Executor failures\<close>

lemma py_strip_blank: "py_strip m = [] \<longleftrightarrow> (\<forall>c\<in>set m. py_isspace c)"
proof
  assume "py_strip m = []"
  then have rest: "\<forall>c\<in>set (dropWhile py_isspace m). py_isspace c"
    by (simp add: py_strip_def)
  have "dropWhile py_isspace m = []"
  proof (rule ccontr)
    assume nonempty: "dropWhile py_isspace m \<noteq> []"
    then have "\<not> py_isspace (hd (dropWhile py_isspace m))"
      by (rule hd_dropWhile)
    with rest nonempty show False
      by (simp del: dropWhile_eq_Nil_conv)
  qed
  then show "\<forall>c\<in>set m. py_isspace c"
    by simp
next
  assume blank: "\<forall>c\<in>set m. py_isspace c"
  then show "py_strip m = []"
    by (auto simp: py_strip_def dest: set_dropWhileD)
qed

text \<open>
  C8, as the code has it. Every \<^verbatim>\<open>Exception\<close> raised by \<^verbatim>\<open>utils.crawl\<close> is caught:
  the executor has been called exactly once, nothing is sent to the backend by the
  handler (no retry, no requeue), the process does not end, and the turn goes on to the
  counters. The error is logged at critical level exactly when its \<^verbatim>\<open>str()\<close>, stripped
  of white space, is not empty.
\<close>

theorem executor_error_contained:
  "spider j = Some sp \<Longrightarrow> crawled ev = Some m \<Longrightarrow>
     dispatch j ev w =
       Proceed (w\<lparr>trace := trace w @ Crawl sp (args j) #
                  (if py_strip m = [] then []
                   else [Log CRITICAL ''exception from scrapy {}'' [AExc (ExternalError m)]])\<rparr>) \<and>
     (queue_backlog_names self S = Some backlog \<and> map_of (faults ev) (BLPOP backlog) = None \<and>
      payload ev = Parsed task \<and> decode self task
          (logger INFO ''detected new job and started working on it ...'' []
             (emit (Redis (BLPOP backlog)) w0)) = Inr (j, w) \<longrightarrow>
        iteration self S ev w0 =
          record_stats self S ev
            (w\<lparr>trace := trace w @ Crawl sp (args j) #
                  (if py_strip m = [] then []
                   else [Log CRITICAL ''exception from scrapy {}'' [AExc (ExternalError m)]])\<rparr>))"
  by (simp add: dispatch_def iteration_def getitem_def emit_def logger_def Let_def)

theorem executor_error_contained_witness:
  "spider \<lparr>spider_name = JStr ''foo'', spider = Some (Spider ''foo''), args = []\<rparr> = Some (Spider ''foo'') \<and>
   crawled foo_job_loud_error = Some ''boom'' \<and>
   dispatch \<lparr>spider_name = JStr ''foo'', spider = Some (Spider ''foo''), args = []\<rparr> foo_job_loud_error
       (fresh\<lparr>trace := [Redis (BLPOP ''Q.a.BACKLOG''),
                         Log INFO ''detected new job and started working on it ...'' []]\<rparr>) =
     Proceed (fresh\<lparr>trace :=
        [Redis (BLPOP ''Q.a.BACKLOG''),
         Log INFO ''detected new job and started working on it ...'' [],
         Crawl (Spider ''foo'') [],
         Log CRITICAL ''exception from scrapy {}'' [AExc (ExternalError ''boom'')]]\<rparr>) \<and>
   queue_backlog_names sample_self ''a'' = Some ''Q.a.BACKLOG'' \<and>
   map_of (faults foo_job_loud_error) (BLPOP ''Q.a.BACKLOG'') = None \<and>
   payload foo_job_loud_error = Parsed (JObj [(''spider'', JStr ''foo'')]) \<and>
   decode sample_self (JObj [(''spider'', JStr ''foo'')])
       (logger INFO ''detected new job and started working on it ...'' []
          (emit (Redis (BLPOP ''Q.a.BACKLOG'')) fresh)) =
     Inr (\<lparr>spider_name = JStr ''foo'', spider = Some (Spider ''foo''), args = []\<rparr>,
          fresh\<lparr>trace := [Redis (BLPOP ''Q.a.BACKLOG''),
                            Log INFO ''detected new job and started working on it ...'' []]\<rparr>) \<and>
   iteration sample_self ''a'' foo_job_loud_error fresh =
     Continue
       \<lparr>vals = [''Q.a.C.FINISHED.'' \<mapsto> RInt 1, ''Q.a.C.RPM.'' \<mapsto> RInt 1],
        ttls = [''Q.a.C.RPM.'' \<mapsto> 60],
        trace =
          [Redis (BLPOP ''Q.a.BACKLOG''),
           Log INFO ''detected new job and started working on it ...'' [],
           Crawl (Spider ''foo'') [],
           Log CRITICAL ''exception from scrapy {}'' [AExc (ExternalError ''boom'')],
           Redis (INCRBY ''Q.a.C.FINISHED.'' 1),
           Redis (INCRBY ''Q.a.C.RPM.'' 1),
           Redis (EXPIRE ''Q.a.C.RPM.'' 60)]\<rparr>"
  using executor_error_contained [of "\<lparr>spider_name = JStr ''foo'', spider = Some (Spider ''foo''), args = []\<rparr>"
      "Spider ''foo''" foo_job_loud_error "''boom''"
      "fresh\<lparr>trace := [Redis (BLPOP ''Q.a.BACKLOG''),
                         Log INFO ''detected new job and started working on it ...'' []]\<rparr>"
      sample_self "''a''" "''Q.a.BACKLOG''" "JObj [(''spider'', JStr ''foo'')]" fresh]
  by (simp add: foo_job_loud_error_def run_defs)

text \<open>
  C8 as stated says that every executor error is logged at critical level. An executor
  that raises an exception whose \<^verbatim>\<open>str()\<close> is empty leaves no log record: the trace of
  the turn has the call of the executor and the counters, and no critical record.
\<close>

theorem executor_error_counterexample:
  "consumer_loop sample_self ''a'' [foo_job_empty_error] fresh =
     Blocked
       \<lparr>vals = [''Q.a.C.FINISHED.'' \<mapsto> RInt 1, ''Q.a.C.RPM.'' \<mapsto> RInt 1],
        ttls = [''Q.a.C.RPM.'' \<mapsto> 60],
        trace =
          [Redis (BLPOP ''Q.a.BACKLOG''),
           Log INFO ''detected new job and started working on it ...'' [],
           Crawl (Spider ''foo'') [],
           Redis (INCRBY ''Q.a.C.FINISHED.'' 1),
           Redis (INCRBY ''Q.a.C.RPM.'' 1),
           Redis (EXPIRE ''Q.a.C.RPM.'' 60),
           Redis (BLPOP ''Q.a.BACKLOG'')]\<rparr>"
  by (simp add: foo_job_empty_error_def run_defs)

subsection \<open>Payloads that are no job\<close>

text \<open>A payload that \<^verbatim>\<open>json.loads\<close> rejects is logged and skipped: the loop goes on.\<close>

lemma unparsable_payload_skipped:
  "queue_backlog_names self S = Some backlog \<Longrightarrow> map_of (faults ev) (BLPOP backlog) = None \<Longrightarrow>
   payload ev = Unparsable m \<Longrightarrow>
     iteration self S ev w =
       Continue (w\<lparr>trace := trace w @
          [Redis (BLPOP backlog),
           Log CRITICAL ''invalid task payload {}'' [AExc (ExternalError m)]]\<rparr>)"
  by (simp add: iteration_def getitem_def emit_def logger_def)

text \<open>
  A payload that \<^verbatim>\<open>json.loads\<close> accepts and that is no dict ends the process, whatever
  follows it in the backlog.
\<close>

lemma non_dict_task_fatal:
  "queue_backlog_names self S = Some backlog \<Longrightarrow> map_of (faults ev) (BLPOP backlog) = None \<Longrightarrow>
   payload ev = Parsed task \<Longrightarrow> \<not> isinstance_dict task \<Longrightarrow>
     consumer_loop self S (ev # evs) w =
       Terminated (- 1)
         (w\<lparr>trace := trace w @
            [Redis (BLPOP backlog),
             Log INFO ''detected new job and started working on it ...'' [],
             Log CRITICAL ''QueueWorkerExit({}) due to the following error ({}), and here is the details: {}''
               [AStr S, AExc (AttributeError (type_name task) ''get''), ATraceback],
             OsExit (- 1)]\<rparr>)"
  by (cases task)
    (simp_all add: iteration_def getitem_def decode_def task_get_def worker_exit_def emit_def
      logger_def os_exit_def)

text \<open>
  C3. The claim is that every payload that does not decode to a job is logged and
  skipped without ending the worker or the process. The code does so for a payload that
  \<^verbatim>\<open>json.loads\<close> rejects, and not for one that is valid JSON and no object: for the
  payload \<^verbatim>\<open>[]\<close> the call \<^verbatim>\<open>task.get\<close> raises \<^verbatim>\<open>AttributeError\<close>, which only the
  outer handler catches, and the process ends with \<^verbatim>\<open>os._exit(-1)\<close>; the job that
  follows is never read.
\<close>

theorem non_dict_payload_terminates:
  "consumer_loop sample_self ''a'' [array_payload, foo_job] fresh =
     Terminated (- 1)
       (fresh\<lparr>trace :=
          [Redis (BLPOP ''Q.a.BACKLOG''),
           Log INFO ''detected new job and started working on it ...'' [],
           Log CRITICAL ''QueueWorkerExit({}) due to the following error ({}), and here is the details: {}''
             [AStr ''a'', AExc (AttributeError ''list'' ''get''), ATraceback],
           OsExit (- 1)]\<rparr>)"
  by (simp add: array_payload_def iteration_def getitem_def decode_def task_get_def
      worker_exit_def emit_def logger_def os_exit_def fresh_def)

subsection \<open>The counters\<close>

lemma r_incr_Inr:
  "r_incr ev k a w = Inr (n, w') \<Longrightarrow>
     n = counter w k + a \<and> vals w' = (vals w)(k \<mapsto> RInt n) \<and> ttls w' = ttls w \<and>
     trace w' = trace w @ [Redis (INCRBY k a)]"
  by (auto simp: r_incr_def Let_def counter_def split: option.splits redis_value.splits if_splits)

lemma r_incr_healthy:
  "map_of (faults ev) (INCRBY k 1) = None \<Longrightarrow> counter_ok w k \<Longrightarrow>
     r_incr ev k 1 w =
       Inr (counter w k + 1,
            \<lparr>vals = (vals w)(k \<mapsto> RInt (counter w k + 1)), ttls = ttls w,
             trace = trace w @ [Redis (INCRBY k 1)]\<rparr>)"
  by (cases w) (auto simp: r_incr_def Let_def counter_def counter_ok_def emit_def max_int64_def
      split: option.splits redis_value.splits)

lemma r_expire_Inr:
  "r_expire ev k t w = Inr (b, w') \<Longrightarrow>
     vals w' = vals w \<and> trace w' = trace w @ [Redis (EXPIRE k t)] \<and>
     ttls w' = (if vals w k = None then ttls w else (ttls w)(k \<mapsto> t))"
  by (auto simp: r_expire_def Let_def split: option.splits)

lemma record_stats_Continue:
  assumes fk: "queue_finished_counter_names self S = Some fk"
    and rk: "queue_consumers_rpm_names self S = Some rk"
    and ne: "fk \<noteq> rk"
    and run: "record_stats self S ev w = Continue w'"
  shows "vals w' = (vals w)(fk \<mapsto> RInt (counter w fk + 1), rk \<mapsto> RInt (counter w rk + 1))"
    and "trace w' = trace w @ [Redis (INCRBY fk 1), Redis (INCRBY rk 1)] @
           (if counter w rk + 1 = 1 then [Redis (EXPIRE rk 60)] else [])"
    and "ttls w' = (if counter w rk + 1 = 1 then (ttls w)(rk \<mapsto> 60) else ttls w)"
proof -
  from run fk rk obtain n1 w1 n2 w2 where
    i1: "r_incr ev fk 1 w = Inr (n1, w1)" and i2: "r_incr ev rk 1 w1 = Inr (n2, w2)" and
    rest: "(if n2 = 1 then (case r_expire ev rk 60 w2 of Inl (e, w3) \<Rightarrow> Raise e w3
                             | Inr (_, w3) \<Rightarrow> Continue w3)
            else Continue w2) = Continue w'"
    by (auto simp: record_stats_def getitem_def split: sum.splits prod.splits)
  note f1 = r_incr_Inr [OF i1] and f2 = r_incr_Inr [OF i2]
  have c1: "counter w1 rk = counter w rk"
    using f1 ne by (simp add: counter_def)
  have n2: "n2 = counter w rk + 1"
    using f2 c1 by simp
  have v2: "vals w2 = (vals w)(fk \<mapsto> RInt (counter w fk + 1), rk \<mapsto> RInt (counter w rk + 1))"
    using f1 f2 n2 by simp
  have t2: "trace w2 = trace w @ [Redis (INCRBY fk 1), Redis (INCRBY rk 1)]"
    using f1 f2 by simp
  have l2: "ttls w2 = ttls w"
    using f1 f2 by simp
  show "vals w' = (vals w)(fk \<mapsto> RInt (counter w fk + 1), rk \<mapsto> RInt (counter w rk + 1))"
    using rest v2 by (auto split: if_splits sum.splits prod.splits dest: r_expire_Inr)
  show "trace w' = trace w @ [Redis (INCRBY fk 1), Redis (INCRBY rk 1)] @
           (if counter w rk + 1 = 1 then [Redis (EXPIRE rk 60)] else [])"
    using rest t2 n2 by (auto split: if_splits sum.splits prod.splits dest: r_expire_Inr)
  show "ttls w' = (if counter w rk + 1 = 1 then (ttls w)(rk \<mapsto> 60) else ttls w)"
    using rest l2 n2 v2 by (auto split: if_splits sum.splits prod.splits dest!: r_expire_Inr)
qed

lemma key_names_differ: "N @ ''.'' @ S @ ''.C.FINISHED.'' \<noteq> N @ ''.'' @ S @ ''.C.RPM.''"
  by simp

lemma dispatch_Proceed:
  "dispatch j ev w = Proceed w4 \<Longrightarrow> vals w4 = vals w \<and> ttls w4 = ttls w \<and> spider j \<noteq> None"
  by (auto simp: dispatch_def Let_def split: option.splits if_splits)

lemma dispatch_Skip:
  "dispatch j ev w = Skip w4 \<Longrightarrow> vals w4 = vals w \<and> ttls w4 = ttls w \<and> spider j = None"
  by (auto simp: dispatch_def Let_def split: option.splits if_splits)

lemma decode_Inr:
  assumes "decode self task w = Inr (j, w3)"
  shows "\<exists>kvs. task = JObj kvs \<and> spiders_get (spiders self) (spider_field kvs) = Inr (spider j) \<and>
       vals w3 = vals w \<and> ttls w3 = ttls w"
proof (cases task)
  case (JObj kvs)
  with assms show ?thesis
    by (auto simp: decode_dict split: sum.splits)
qed (use assms in \<open>simp_all add: decode_def task_get_def\<close>)

lemma iteration_Continue:
  assumes run: "iteration self S ev w = Continue w'"
  shows "(if runs_spider (spiders self) ev
          then \<exists>w4. vals w4 = vals w \<and> ttls w4 = ttls w \<and> record_stats self S ev w4 = Continue w'
          else vals w' = vals w \<and> ttls w' = ttls w)"
proof (cases "payload ev")
  case (Unparsable m)
  with run show ?thesis
    by (auto simp: iteration_def runs_spider_def Let_def split: sum.splits option.splits)
next
  case (Parsed task)
  with run obtain bk j w3 where
    dec: "decode self task (logger INFO ''detected new job and started working on it ...'' []
            (emit (Redis (BLPOP bk)) w)) = Inr (j, w3)" and
    rest: "(case dispatch j ev w3 of Skip w4 \<Rightarrow> Continue w4
            | Proceed w4 \<Rightarrow> record_stats self S ev w4) = Continue w'"
    by (auto simp: iteration_def Let_def split: sum.splits option.splits)
  from decode_Inr [OF dec] obtain kvs where
    task: "task = JObj kvs" and
    sp: "spiders_get (spiders self) (spider_field kvs) = Inr (spider j)" and
    same: "vals w3 = vals w" "ttls w3 = ttls w"
    by auto
  show ?thesis
  proof (cases "dispatch j ev w3")
    case (Skip w4)
    with rest dispatch_Skip [OF Skip] same Parsed task sp show ?thesis
      by (simp add: runs_spider_def)
  next
    case (Proceed w4)
    from dispatch_Proceed [OF Proceed] obtain s where "spider j = Some s" and
      "vals w4 = vals w3" "ttls w4 = ttls w3"
      by auto
    with rest Proceed same Parsed task sp show ?thesis
      by (auto simp: runs_spider_def)
  qed
qed

lemma iteration_finished:
  assumes S: "S \<in> fst ` set qwc"
    and run: "iteration (boot N qwc reg) S ev w = Continue w'"
  shows "counter w' (N @ ''.'' @ S @ ''.C.FINISHED.'') =
           counter w (N @ ''.'' @ S @ ''.C.FINISHED.'') + (if runs_spider reg ev then 1 else 0)"
proof (cases "runs_spider reg ev")
  case False
  with iteration_Continue [OF run] show ?thesis
    by (simp add: counter_def)
next
  case True
  with iteration_Continue [OF run] obtain w4 where
    same: "vals w4 = vals w" and stats: "record_stats (boot N qwc reg) S ev w4 = Continue w'"
    by auto
  have fk: "queue_finished_counter_names (boot N qwc reg) S = Some (N @ ''.'' @ S @ ''.C.FINISHED.'')"
    and rk: "queue_consumers_rpm_names (boot N qwc reg) S = Some (N @ ''.'' @ S @ ''.C.RPM.'')"
    using S by (simp_all add: boot_lookup)
  have "vals w' = (vals w4)(N @ ''.'' @ S @ ''.C.FINISHED.'' \<mapsto>
            RInt (counter w4 (N @ ''.'' @ S @ ''.C.FINISHED.'') + 1),
          N @ ''.'' @ S @ ''.C.RPM.'' \<mapsto> RInt (counter w4 (N @ ''.'' @ S @ ''.C.RPM.'') + 1))"
    by (rule record_stats_Continue(1) [OF fk rk key_names_differ stats])
  then have "counter w' (N @ ''.'' @ S @ ''.C.FINISHED.'') =
      counter w4 (N @ ''.'' @ S @ ''.C.FINISHED.'') + 1"
    by (simp add: counter_def)
  with True same show ?thesis
    by (simp add: counter_def)
qed

text \<open>
  C2, as the code has it. A turn reaches the counters exactly when its payload names a
  registered spider, whether the executor returned or raised; a turn skipped for an
  unknown spider does not. So on every run of the loop that does not end the process, the
  finished counter grows by exactly the number of turns that ran a spider.
\<close>

theorem finished_counter_counts_runs:
  "S \<in> fst ` set qwc \<Longrightarrow> consumer_loop (boot N qwc reg) S evs w = Blocked w' \<Longrightarrow>
     counter w' (N @ ''.'' @ S @ ''.C.FINISHED.'') =
       counter w (N @ ''.'' @ S @ ''.C.FINISHED.'') + int (length (filter (runs_spider reg) evs))"
proof (induction evs arbitrary: w)
  case Nil
  then show ?case
    by (auto simp: getitem_def counter_def split: option.splits)
next
  case (Cons ev evs)
  from Cons.prems(2) obtain w1 where
    step: "iteration (boot N qwc reg) S ev w = Continue w1" and
    rest: "consumer_loop (boot N qwc reg) S evs w1 = Blocked w'"
    by (auto split: step.splits)
  from Cons.IH [OF Cons.prems(1) rest] iteration_finished [OF Cons.prems(1) step]
  show ?case
    by simp
qed

theorem finished_counter_counts_runs_witness:
  "''a'' \<in> fst ` set [(''a'', 2::nat)] \<and>
   consumer_loop (boot ''Q'' [(''a'', 2)] sample_spiders) ''a''
       [foo_job, bar_job, foo_job_loud_error] fresh = Blocked three_jobs_done \<and>
   length (filter (runs_spider sample_spiders) [foo_job, bar_job, foo_job_loud_error]) = 2 \<and>
   counter fresh ''Q.a.C.FINISHED.'' = 0 \<and>
   counter three_jobs_done ''Q.a.C.FINISHED.'' = 2"
proof -
  have run: "consumer_loop (boot ''Q'' [(''a'', 2)] sample_spiders) ''a''
       [foo_job, bar_job, foo_job_loud_error] fresh = Blocked three_jobs_done"
    by (simp add: three_jobs_done_def foo_job_def bar_job_def foo_job_loud_error_def boot_lookup
        run_defs fun_eq_iff)
  have n: "length (filter (runs_spider sample_spiders) [foo_job, bar_job, foo_job_loud_error]) = 2"
    by (simp add: runs_spider_def foo_job_def bar_job_def foo_job_loud_error_def spider_field_def
        sample_spiders_def)
  from finished_counter_counts_runs [of "''a''" "[(''a'', 2)]" "''Q''" sample_spiders
      "[foo_job, bar_job, foo_job_loud_error]" fresh, OF _ run] run n
  show ?thesis
    by (simp add: counter_def three_jobs_done_def fresh_def)
qed

text \<open>
  C2 as stated counts the skipped jobs too. After one turn that reaches the dispatch step
  with an unknown spider, the finished counter is still missing: it reads 0, not 1.
\<close>

theorem finished_counter_counterexample:
  "consumer_loop sample_self ''a'' [bar_job] fresh =
     Blocked
       (fresh\<lparr>trace :=
          [Redis (BLPOP ''Q.a.BACKLOG''),
           Log INFO ''detected new job and started working on it ...'' [],
           Log CRITICAL ''unknwon spider {}'' [AVal (JStr ''bar'')],
           Redis (BLPOP ''Q.a.BACKLOG'')]\<rparr>) \<and>
   counter (final_world (consumer_loop sample_self ''a'' [bar_job] fresh)) ''Q.a.C.FINISHED.'' = 0"
  by (simp add: bar_job_def final_world_def counter_def run_defs)

subsection \<open>The rate counter\<close>

lemma redis_calls_append [simp]: "redis_calls (xs @ ys) = redis_calls xs @ redis_calls ys"
  by (induction xs rule: redis_calls.induct) simp_all

lemma dispatch_calls:
  "dispatch j ev w = Proceed w4 \<Longrightarrow> redis_calls (trace w4) = redis_calls (trace w)"
  "dispatch j ev w = Skip w4 \<Longrightarrow> redis_calls (trace w4) = redis_calls (trace w)"
  by (auto simp: dispatch_def Let_def split: option.splits if_splits)

lemma decode_calls:
  assumes "decode self task w = Inr (j, w3)"
  shows "redis_calls (trace w3) = redis_calls (trace w)"
proof (cases task)
  case (JObj kvs)
  with assms show ?thesis
    by (auto simp: decode_dict split: sum.splits)
qed (use assms in \<open>simp_all add: decode_def task_get_def\<close>)

lemma r_incr_int:
  "r_incr ev k a w = Inr (n, w') \<Longrightarrow> vals w k = None \<or> (\<exists>i. vals w k = Some (RInt i))"
  by (auto simp: r_incr_def Let_def split: option.splits redis_value.splits if_splits)

lemma record_stats_rate_int:
  assumes fk: "queue_finished_counter_names self S = Some fk"
    and rk: "queue_consumers_rpm_names self S = Some rk"
    and ne: "fk \<noteq> rk"
    and run: "record_stats self S ev w = Continue w'"
  shows "vals w rk = None \<or> (\<exists>i. vals w rk = Some (RInt i))"
proof -
  from run fk rk obtain n1 w1 n2 w2 where
    i1: "r_incr ev fk 1 w = Inr (n1, w1)" and i2: "r_incr ev rk 1 w1 = Inr (n2, w2)"
    by (auto simp: record_stats_def getitem_def split: sum.splits prod.splits)
  from r_incr_Inr [OF i1] ne have "vals w1 rk = vals w rk"
    by simp
  with r_incr_int [OF i2] show ?thesis
    by simp
qed

lemma iteration_Continue_calls:
  assumes bk: "queue_backlog_names self S = Some backlog"
    and run: "iteration self S ev w = Continue w'"
  shows "(if runs_spider (spiders self) ev
          then \<exists>w4. vals w4 = vals w \<and> ttls w4 = ttls w \<and>
                 redis_calls (trace w4) = redis_calls (trace w) @ [BLPOP backlog] \<and>
                 record_stats self S ev w4 = Continue w'
          else vals w' = vals w \<and> ttls w' = ttls w \<and>
                 redis_calls (trace w') = redis_calls (trace w) @ [BLPOP backlog])"
proof (cases "payload ev")
  case (Unparsable m)
  with run bk show ?thesis
    by (auto simp: iteration_def getitem_def runs_spider_def Let_def split: option.splits)
next
  case (Parsed task)
  let ?w2 = "logger INFO ''detected new job and started working on it ...'' []
            (emit (Redis (BLPOP backlog)) w)"
  from Parsed run bk obtain j w3 where
    dec: "decode self task ?w2 = Inr (j, w3)" and
    rest: "(case dispatch j ev w3 of Skip w4 \<Rightarrow> Continue w4
            | Proceed w4 \<Rightarrow> record_stats self S ev w4) = Continue w'"
    by (auto simp: iteration_def getitem_def Let_def split: sum.splits option.splits)
  from decode_Inr [OF dec] obtain kvs where
    task: "task = JObj kvs" and
    sp: "spiders_get (spiders self) (spider_field kvs) = Inr (spider j)" and
    same: "vals w3 = vals w" "ttls w3 = ttls w"
    by auto
  have calls3: "redis_calls (trace w3) = redis_calls (trace w) @ [BLPOP backlog]"
    using decode_calls [OF dec] by simp
  show ?thesis
  proof (cases "dispatch j ev w3")
    case (Skip w4)
    with rest dispatch_Skip [OF Skip] dispatch_calls(2) [OF Skip] same calls3 Parsed task sp
    show ?thesis
      by (simp add: runs_spider_def)
  next
    case (Proceed w4)
    from dispatch_Proceed [OF Proceed] obtain s where "spider j = Some s" and
      "vals w4 = vals w3" "ttls w4 = ttls w3"
      by auto
    with rest Proceed dispatch_calls(1) [OF Proceed] same calls3 Parsed task sp show ?thesis
      by (auto simp: runs_spider_def)
  qed
qed

text \<open>
  C4, as the code has it. A turn that goes on to the next one has sent, after its BLPOP,
  either nothing more or the commands of a recorded completion, and the latter exactly when
  its payload names a registered spider. In that case the rate counter has been
  incremented by 1 with one INCRBY, after the INCRBY of the finished counter, and the
  60-second EXPIRE of the rate counter's key has been sent if and only if the value after
  the increment is 1, which is when the key was missing or held 0 before; otherwise no
  expiry changes. A turn that ends in \<^verbatim>\<open>continue\<close> (a payload that \<^verbatim>\<open>json.loads\<close>
  rejects, an unknown spider) touches neither the counters nor an expiry.
\<close>

theorem rate_counter_per_turn:
  "S \<in> fst ` set qwc \<Longrightarrow> iteration (boot N qwc reg) S ev w = Continue w' \<Longrightarrow>
     (let backlog = N @ ''.'' @ S @ ''.BACKLOG'';
          finished = N @ ''.'' @ S @ ''.C.FINISHED.'';
          rpm = N @ ''.'' @ S @ ''.C.RPM.'';
          n = counter w rpm + 1
      in if runs_spider reg ev
         then vals w' rpm = Some (RInt n) \<and>
              redis_calls (trace w') = redis_calls (trace w) @
                [BLPOP backlog, INCRBY finished 1, INCRBY rpm 1] @
                (if n = 1 then [EXPIRE rpm 60] else []) \<and>
              ttls w' = (if n = 1 then (ttls w)(rpm \<mapsto> 60) else ttls w) \<and>
              (n = 1) = (vals w rpm = None \<or> vals w rpm = Some (RInt 0))
         else vals w' = vals w \<and> ttls w' = ttls w \<and>
              redis_calls (trace w') = redis_calls (trace w) @ [BLPOP backlog])"
proof -
  assume S: "S \<in> fst ` set qwc" and run: "iteration (boot N qwc reg) S ev w = Continue w'"
  let ?self = "boot N qwc reg"
  let ?fk = "N @ ''.'' @ S @ ''.C.FINISHED.''" and ?rk = "N @ ''.'' @ S @ ''.C.RPM.''"
  have bk: "queue_backlog_names ?self S = Some (N @ ''.'' @ S @ ''.BACKLOG'')"
    and fk: "queue_finished_counter_names ?self S = Some ?fk"
    and rk: "queue_consumers_rpm_names ?self S = Some ?rk"
    using S by (simp_all add: boot_lookup)
  note turn = iteration_Continue_calls [OF bk run]
  show ?thesis
  proof (cases "runs_spider reg ev")
    case False
    with turn show ?thesis
      by (simp add: Let_def)
  next
    case True
    with turn obtain w4 where
      same: "vals w4 = vals w" "ttls w4 = ttls w" and
      calls4: "redis_calls (trace w4) = redis_calls (trace w) @ [BLPOP (N @ ''.'' @ S @ ''.BACKLOG'')]" and
      stats: "record_stats ?self S ev w4 = Continue w'"
      by auto
    have c: "counter w4 k = counter w k" for k
      using same by (simp add: counter_def)
    note facts = record_stats_Continue [OF fk rk key_names_differ stats]
    have v: "vals w' ?rk = Some (RInt (counter w ?rk + 1))"
      using facts(1) by (simp add: c)
    have t: "redis_calls (trace w') = redis_calls (trace w) @
        [BLPOP (N @ ''.'' @ S @ ''.BACKLOG''), INCRBY ?fk 1, INCRBY ?rk 1] @
        (if counter w ?rk + 1 = 1 then [EXPIRE ?rk 60] else [])"
      using facts(2) calls4 by (simp add: c)
    have l: "ttls w' = (if counter w ?rk + 1 = 1 then (ttls w)(?rk \<mapsto> 60) else ttls w)"
      using facts(3) same by (simp add: c)
    have "vals w ?rk = None \<or> (\<exists>i. vals w ?rk = Some (RInt i))"
      using record_stats_rate_int [OF fk rk key_names_differ stats] same by simp
    then have g: "(counter w ?rk + 1 = 1) = (vals w ?rk = None \<or> vals w ?rk = Some (RInt 0))"
      by (auto simp: counter_def)
    from True v t l g show ?thesis
      unfolding Let_def by simp
  qed
qed

theorem rate_counter_per_turn_witness:
  "''a'' \<in> fst ` set [(''a'', 2::nat)] \<and>
   iteration (boot ''Q'' [(''a'', 2)] sample_spiders) ''a'' foo_job_no_args fresh = Continue ran_once \<and>
   runs_spider sample_spiders foo_job_no_args \<and>
   counter fresh ''Q.a.C.RPM.'' + 1 = 1 \<and>
   vals ran_once ''Q.a.C.RPM.'' = Some (RInt 1) \<and>
   redis_calls (trace ran_once) =
     [BLPOP ''Q.a.BACKLOG'', INCRBY ''Q.a.C.FINISHED.'' 1, INCRBY ''Q.a.C.RPM.'' 1,
      EXPIRE ''Q.a.C.RPM.'' 60] \<and>
   ttls ran_once = (ttls fresh)(''Q.a.C.RPM.'' \<mapsto> 60) \<and>
   iteration (boot ''Q'' [(''a'', 2)] sample_spiders) ''a'' foo_job_no_args ran_once = Continue ran_twice \<and>
   counter ran_once ''Q.a.C.RPM.'' + 1 = 2 \<and>
   vals ran_twice ''Q.a.C.RPM.'' = Some (RInt 2) \<and>
   redis_calls (trace ran_twice) = redis_calls (trace ran_once) @
     [BLPOP ''Q.a.BACKLOG'', INCRBY ''Q.a.C.FINISHED.'' 1, INCRBY ''Q.a.C.RPM.'' 1] \<and>
   ttls ran_twice = ttls ran_once \<and>
   iteration (boot ''Q'' [(''a'', 2)] sample_spiders) ''a'' bar_job ran_once = Continue skipped_after_one \<and>
   \<not> runs_spider sample_spiders bar_job \<and>
   vals skipped_after_one = vals ran_once \<and> ttls skipped_after_one = ttls ran_once \<and>
   redis_calls (trace skipped_after_one) = redis_calls (trace ran_once) @ [BLPOP ''Q.a.BACKLOG'']"
proof -
  have keys: "''a'' \<in> fst ` set [(''a'', 2::nat)]"
    by simp
  have run1: "iteration (boot ''Q'' [(''a'', 2)] sample_spiders) ''a'' foo_job_no_args fresh =
      Continue ran_once"
    by (simp add: ran_once_def foo_job_no_args_def boot_lookup run_defs)
  have run2: "iteration (boot ''Q'' [(''a'', 2)] sample_spiders) ''a'' foo_job_no_args ran_once =
      Continue ran_twice"
    by (simp add: ran_once_def ran_twice_def foo_job_no_args_def boot_lookup run_defs fun_eq_iff)
  have run3: "iteration (boot ''Q'' [(''a'', 2)] sample_spiders) ''a'' bar_job ran_once =
      Continue skipped_after_one"
    by (simp add: ran_once_def skipped_after_one_def bar_job_def boot_lookup run_defs)
  have foo: "runs_spider sample_spiders foo_job_no_args" and bar: "\<not> runs_spider sample_spiders bar_job"
    by (simp_all add: runs_spider_def foo_job_no_args_def bar_job_def spider_field_def sample_spiders_def)
  from rate_counter_per_turn [OF keys run1] rate_counter_per_turn [OF keys run2]
    rate_counter_per_turn [OF keys run3] run1 run2 run3 keys foo bar
  show ?thesis
    by (simp add: Let_def counter_def ran_once_def fresh_def)
qed

text \<open>
  C4 as stated speaks of every completed turn and of the increment that creates a fresh
  counter. A turn for an unknown spider completes and leaves the rate counter at 1, with
  no command after its BLPOP; and a turn for \<open>foo\<close> on a backend whose rate counter exists
  and holds 0 sends the EXPIRE.
\<close>

theorem rate_counter_counterexample:
  "iteration sample_self ''a'' bar_job ran_once = Continue skipped_after_one \<and>
   vals ran_once ''Q.a.C.RPM.'' = Some (RInt 1) \<and>
   vals skipped_after_one ''Q.a.C.RPM.'' = Some (RInt 1) \<and>
   redis_calls (trace skipped_after_one) = redis_calls (trace ran_once) @ [BLPOP ''Q.a.BACKLOG''] \<and>
   vals rate_zero ''Q.a.C.RPM.'' = Some (RInt 0) \<and>
   iteration sample_self ''a'' foo_job_no_args rate_zero = Continue rate_zero_ran \<and>
   redis_calls (trace rate_zero_ran) =
     [BLPOP ''Q.a.BACKLOG'', INCRBY ''Q.a.C.FINISHED.'' 1, INCRBY ''Q.a.C.RPM.'' 1,
      EXPIRE ''Q.a.C.RPM.'' 60]"
  by (simp add: ran_once_def skipped_after_one_def rate_zero_def rate_zero_ran_def bar_job_def
      foo_job_no_args_def run_defs fun_eq_iff)

subsection \<open>Blank executor errors\<close>

lemma r_expire_healthy:
  "map_of (faults ev) (EXPIRE k t) = None \<Longrightarrow> vals w k = Some v \<Longrightarrow>
     r_expire ev k t w =
       Inr (True, \<lparr>vals = vals w, ttls = (ttls w)(k \<mapsto> t), trace = trace w @ [Redis (EXPIRE k t)]\<rparr>)"
  by (cases w) (simp add: r_expire_def Let_def emit_def)

lemma record_stats_healthy:
  assumes fk: "queue_finished_counter_names self S = Some fk"
    and rk: "queue_consumers_rpm_names self S = Some rk"
    and ne: "fk \<noteq> rk"
    and quiet: "faults ev = []"
    and ok1: "counter_ok w fk" and ok2: "counter_ok w rk"
  shows "record_stats self S ev w =
     Continue
       \<lparr>vals = (vals w)(fk \<mapsto> RInt (counter w fk + 1), rk \<mapsto> RInt (counter w rk + 1)),
        ttls = (if counter w rk + 1 = 1 then (ttls w)(rk \<mapsto> 60) else ttls w),
        trace = trace w @ [Redis (INCRBY fk 1), Redis (INCRBY rk 1)] @
          (if counter w rk + 1 = 1 then [Redis (EXPIRE rk 60)] else [])\<rparr>"
proof -
  let ?w1 = "\<lparr>vals = (vals w)(fk \<mapsto> RInt (counter w fk + 1)), ttls = ttls w,
               trace = trace w @ [Redis (INCRBY fk 1)]\<rparr>"
  let ?w2 = "\<lparr>vals = (vals w)(fk \<mapsto> RInt (counter w fk + 1), rk \<mapsto> RInt (counter w rk + 1)),
               ttls = ttls w,
               trace = trace w @ [Redis (INCRBY fk 1), Redis (INCRBY rk 1)]\<rparr>"
  have i1: "r_incr ev fk 1 w = Inr (counter w fk + 1, ?w1)"
    using quiet ok1 by (simp add: r_incr_healthy)
  have ok2': "counter_ok ?w1 rk" and c2: "counter ?w1 rk = counter w rk"
    using ok2 ne by (simp_all add: counter_ok_def counter_def)
  have i2: "r_incr ev rk 1 ?w1 = Inr (counter w rk + 1, ?w2)"
    using quiet ok2' c2 r_incr_healthy [of ev rk ?w1] by simp
  have e: "r_expire ev rk 60 ?w2 =
      Inr (True, \<lparr>vals = vals ?w2, ttls = (ttls ?w2)(rk \<mapsto> 60),
                  trace = trace ?w2 @ [Redis (EXPIRE rk 60)]\<rparr>)"
    using quiet by (intro r_expire_healthy) simp_all
  show ?thesis
  proof (cases "counter w rk = 0")
    case True
    with fk rk i1 i2 e show ?thesis
      by (simp add: record_stats_def getitem_def)
  next
    case False
    with fk rk i1 i2 show ?thesis
      by (simp add: record_stats_def getitem_def)
  qed
qed

lemma counter_unchanged [simp]:
  "counter (emit e w) k = counter w k"
  "counter (logger l f as w) k = counter w k"
  "counter (snd (check_args a w)) k = counter w k"
  by (simp_all add: counter_def)

text \<open>
  C10. When the executor raises an exception whose \<^verbatim>\<open>str()\<close> is empty or white space
  only, the turn logs nothing about it (after the call of the executor the trace has no
  log record), and, the backend being healthy, both the finished counter and the rate
  counter are incremented by 1.
\<close>

theorem blank_executor_error_silent:
  assumes "S \<in> fst ` set qwc"
    and "payload ev = Parsed (JObj kvs)"
    and "spiders_get reg (spider_field kvs) = Inr (Some sp)"
    and "crawled ev = Some m"
    and "\<forall>c\<in>set m. py_isspace c"
    and "faults ev = []"
    and "counter_ok w (N @ ''.'' @ S @ ''.C.FINISHED.'')"
    and "counter_ok w (N @ ''.'' @ S @ ''.C.RPM.'')"
  shows "iteration (boot N qwc reg) S ev w =
     Continue
       \<lparr>vals = (vals w)(N @ ''.'' @ S @ ''.C.FINISHED.'' \<mapsto>
                  RInt (counter w (N @ ''.'' @ S @ ''.C.FINISHED.'') + 1),
                N @ ''.'' @ S @ ''.C.RPM.'' \<mapsto> RInt (counter w (N @ ''.'' @ S @ ''.C.RPM.'') + 1)),
        ttls = (if counter w (N @ ''.'' @ S @ ''.C.RPM.'') + 1 = 1
                then (ttls w)(N @ ''.'' @ S @ ''.C.RPM.'' \<mapsto> 60) else ttls w),
        trace = trace w @
          [Redis (BLPOP (N @ ''.'' @ S @ ''.BACKLOG'')),
           Log INFO ''detected new job and started working on it ...'' []] @
          (if isinstance_dict (args_field kvs) then []
           else [Log WARNING ''invalid args object, replacing it with empty one {}''
                   [AVal (args_field kvs)]]) @
          [Crawl sp (fst (check_args (args_field kvs) w)),
           Redis (INCRBY (N @ ''.'' @ S @ ''.C.FINISHED.'') 1),
           Redis (INCRBY (N @ ''.'' @ S @ ''.C.RPM.'') 1)] @
          (if counter w (N @ ''.'' @ S @ ''.C.RPM.'') + 1 = 1
           then [Redis (EXPIRE (N @ ''.'' @ S @ ''.C.RPM.'') 60)] else [])\<rparr>"
proof -
  let ?self = "boot N qwc reg"
  let ?w2 = "logger INFO ''detected new job and started working on it ...'' []
               (emit (Redis (BLPOP (N @ ''.'' @ S @ ''.BACKLOG''))) w)"
  let ?w3 = "snd (check_args (args_field kvs) ?w2)"
  let ?a = "fst (check_args (args_field kvs) w)"
  let ?w4 = "emit (Crawl sp ?a) ?w3"
  have bk: "queue_backlog_names ?self S = Some (N @ ''.'' @ S @ ''.BACKLOG'')"
    and fk: "queue_finished_counter_names ?self S = Some (N @ ''.'' @ S @ ''.C.FINISHED.'')"
    and rk: "queue_consumers_rpm_names ?self S = Some (N @ ''.'' @ S @ ''.C.RPM.'')"
    using assms(1) by (simp_all add: boot_lookup)
  have a: "fst (check_args (args_field kvs) ?w2) = ?a"
    by (cases "args_field kvs") (simp_all add: check_args_def)
  have silent: "py_strip m = []"
    using assms(5) by (simp add: py_strip_blank)
  have disp: "dispatch \<lparr>spider_name = spider_field kvs, spider = Some sp, args = ?a\<rparr> ev ?w3 = Proceed ?w4"
    using assms(4) silent by (simp add: dispatch_def)
  have step: "iteration ?self S ev w = record_stats ?self S ev ?w4"
    using bk assms(2,3,6) disp a by (simp add: iteration_def getitem_def decode_dict)
  have ok: "counter_ok ?w4 (N @ ''.'' @ S @ ''.C.FINISHED.'')" "counter_ok ?w4 (N @ ''.'' @ S @ ''.C.RPM.'')"
    using assms(7,8) by (simp_all add: counter_ok_def)
  show ?thesis
    unfolding step record_stats_healthy [OF fk rk key_names_differ assms(6) ok]
    by simp
qed

theorem blank_executor_error_silent_witness:
  "''a'' \<in> fst ` set [(''a'', 2::nat)] \<and>
   payload foo_job_blank_error = Parsed (JObj [(''spider'', JStr ''foo'')]) \<and>
   spiders_get sample_spiders (spider_field [(''spider'', JStr ''foo'')]) = Inr (Some (Spider ''foo'')) \<and>
   crawled foo_job_blank_error = Some [CHR 0x20, CHR 0x09] \<and>
   list_all py_isspace [CHR 0x20, CHR 0x09] \<and>
   faults foo_job_blank_error = [] \<and>
   counter_ok fresh ''Q.a.C.FINISHED.'' \<and> counter_ok fresh ''Q.a.C.RPM.'' \<and>
   iteration (boot ''Q'' [(''a'', 2)] sample_spiders) ''a'' foo_job_blank_error fresh =
     Continue
       \<lparr>vals = [''Q.a.C.FINISHED.'' \<mapsto> RInt 1, ''Q.a.C.RPM.'' \<mapsto> RInt 1],
        ttls = [''Q.a.C.RPM.'' \<mapsto> 60],
        trace =
          [Redis (BLPOP ''Q.a.BACKLOG''),
           Log INFO ''detected new job and started working on it ...'' [],
           Crawl (Spider ''foo'') [],
           Redis (INCRBY ''Q.a.C.FINISHED.'' 1),
           Redis (INCRBY ''Q.a.C.RPM.'' 1),
           Redis (EXPIRE ''Q.a.C.RPM.'' 60)]\<rparr>"
proof -
  have blank: "\<forall>c\<in>set [CHR 0x20, CHR 0x09]. py_isspace c"
    by (simp add: py_isspace_def whitespace_def)
  have pre: "''a'' \<in> fst ` set [(''a'', 2::nat)]"
    "payload foo_job_blank_error = Parsed (JObj [(''spider'', JStr ''foo'')])"
    "spiders_get sample_spiders (spider_field [(''spider'', JStr ''foo'')]) = Inr (Some (Spider ''foo''))"
    "crawled foo_job_blank_error = Some [CHR 0x20, CHR 0x09]"
    "faults foo_job_blank_error = []"
    "counter_ok fresh (''Q'' @ ''.'' @ ''a'' @ ''.C.FINISHED.'')"
    "counter_ok fresh (''Q'' @ ''.'' @ ''a'' @ ''.C.RPM.'')"
    by (simp_all add: foo_job_blank_error_def spider_field_def sample_spiders_def counter_ok_def fresh_def)
  from blank_executor_error_silent [OF pre(1,2,3,4) blank pre(5,6,7)] pre blank
  show ?thesis
    by (simp add: counter_def counter_ok_def fresh_def args_field_def check_args_def list_all_iff)
qed

end
